theory Spec2Isabelle
  imports Complex_Main "HOL-Library.Sublist"
begin

section \<open>Python values and exceptions\<close>

text \<open>
  The program is \<^verbatim>\<open>dags/weatherstack_to_postgres.py\<close>. Its data are the values that
  \<^verbatim>\<open>resp.json()\<close> decodes: \<^verbatim>\<open>None\<close>, booleans, integers, floats, strings, lists and
  dictionaries with string keys, and the adapter object \<^verbatim>\<open>psycopg2.extras.Json(v)\<close> that
  wraps the archived payload. A dictionary is an association list read with \<open>map_of\<close>.
  The carrier \<open>'f\<close> of floats is a parameter: no arithmetic is done on floats by the
  program, they are only produced by \<^verbatim>\<open>float(...)\<close> and stored.

  A string is a list of characters read as code points below 256.
\<close>

datatype 'f pyval =
    PNone
  | PBool bool
  | PInt int
  | PFloat 'f
  | PStr string
  | PList "'f pyval list"
  | PDict "(string \<times> 'f pyval) list"
  | Json "'f pyval"

datatype exn_class =
    ValueError | RuntimeError | TypeError | AttributeError | KeyError
  | OperationalError | ProgrammingError | IntegrityError | DataError
  | OtherError string

text \<open>
  An exception: its class and \<^verbatim>\<open>str(e)\<close>, the text an f-string prints for it. The
  exceptions are those that derive from \<^verbatim>\<open>Exception\<close>, which \<^verbatim>\<open>except Exception\<close>
  catches.
\<close>

datatype exn = Exn (exn_class: exn_class) (exn_msg: string)

text \<open>
  The builtins of the interpreter that the program calls and that are not modelled
  bit by bit: \<^verbatim>\<open>float(v)\<close>, \<^verbatim>\<open>int(s)\<close> on a string, \<^verbatim>\<open>str(v)\<close> (what an f-string
  prints for a value) and the truth value of a float.
\<close>

record 'f builtins =
  py_float :: "'f pyval \<Rightarrow> exn + 'f"
  py_int :: "string \<Rightarrow> exn + int"
  py_str :: "'f pyval \<Rightarrow> string"
  float_truthy :: "'f \<Rightarrow> bool"

fun type_name :: "'f pyval \<Rightarrow> string" where
  "type_name PNone = ''NoneType''"
| "type_name (PBool _) = ''bool''"
| "type_name (PInt _) = ''int''"
| "type_name (PFloat _) = ''float''"
| "type_name (PStr _) = ''str''"
| "type_name (PList _) = ''list''"
| "type_name (PDict _) = ''dict''"
| "type_name (Json _) = ''Json''"

text \<open>
  Sequencing: an exception raised by the first step ends the computation, a value goes
  on to the next step.
\<close>

definition and_then :: "exn + 'a \<Rightarrow> ('a \<Rightarrow> exn + 'b) \<Rightarrow> exn + 'b" where
  "and_then m f = (case m of Inl e \<Rightarrow> Inl e | Inr x \<Rightarrow> f x)"

text \<open>\<^verbatim>\<open>obj.get(key, default)\<close>: only a dictionary has the method.\<close>

fun py_get :: "'f pyval \<Rightarrow> string \<Rightarrow> 'f pyval \<Rightarrow> exn + 'f pyval" where
  "py_get (PDict kvs) key dflt = Inr (case map_of kvs key of Some v \<Rightarrow> v | None \<Rightarrow> dflt)"
| "py_get obj key dflt =
     Inl (Exn AttributeError
       ([CHR 0x27] @ type_name obj @ [CHR 0x27] @ '' object has no attribute '' @
        [CHR 0x27] @ ''get'' @ [CHR 0x27]))"

text \<open>\<^verbatim>\<open>obj[key]\<close> on a dictionary; \<^verbatim>\<open>KeyError\<close> when the key is absent.\<close>

fun py_getitem :: "'f pyval \<Rightarrow> string \<Rightarrow> exn + 'f pyval" where
  "py_getitem (PDict kvs) key =
     (case map_of kvs key of
        Some v \<Rightarrow> Inr v
      | None \<Rightarrow> Inl (Exn KeyError ([CHR 0x27] @ key @ [CHR 0x27])))"
| "py_getitem obj key =
     Inl (Exn TypeError
       ([CHR 0x27] @ type_name obj @ [CHR 0x27] @ '' object is not subscriptable''))"

text \<open>
  \<^verbatim>\<open>key in obj\<close> for a string key: a key of a dictionary, an element of a list, a
  substring of a string; any other value raises \<^verbatim>\<open>TypeError\<close>.
\<close>

fun py_contains :: "string \<Rightarrow> 'f pyval \<Rightarrow> exn + bool" where
  "py_contains key (PDict kvs) = Inr (map_of kvs key \<noteq> None)"
| "py_contains key (PList xs) = Inr (PStr key \<in> set xs)"
| "py_contains key (PStr s) = Inr (sublist key s)"
| "py_contains key obj =
     Inl (Exn TypeError
       (''argument of type '' @ [CHR 0x27] @ type_name obj @ [CHR 0x27] @
        '' is not iterable''))"

text \<open>The truth value of an object, as \<^verbatim>\<open>x or {}\<close> tests it.\<close>

fun truthy :: "'f builtins \<Rightarrow> 'f pyval \<Rightarrow> bool" where
  "truthy bi PNone = False"
| "truthy bi (PBool b) = b"
| "truthy bi (PInt n) = (n \<noteq> 0)"
| "truthy bi (PFloat x) = float_truthy bi x"
| "truthy bi (PStr s) = (s \<noteq> [])"
| "truthy bi (PList xs) = (xs \<noteq> [])"
| "truthy bi (PDict kvs) = (kvs \<noteq> [])"
| "truthy bi (Json v) = True"

section \<open>Configuration from the environment\<close>

text \<open>The process environment: \<^verbatim>\<open>os.getenv(name, default)\<close> reads it.\<close>

type_synonym environ = "string \<Rightarrow> string option"

definition getenv :: "environ \<Rightarrow> string \<Rightarrow> string option \<Rightarrow> string option" where
  "getenv env name dflt = (case env name of Some v \<Rightarrow> Some v | None \<Rightarrow> dflt)"

text \<open>
  The characters \<^verbatim>\<open>str.strip()\<close> removes, among the code points below 256: tab, line
  feed, vertical tab, form feed, carriage return, the separators 28 to 31, the space,
  NEL (133) and the no-break space (160).
\<close>

definition is_space :: "char \<Rightarrow> bool" where
  "is_space c =
     (let n = (of_char c :: nat)
      in (9 \<le> n \<and> n \<le> 13) \<or> (28 \<le> n \<and> n \<le> 32) \<or> n = 133 \<or> n = 160)"

definition strip :: "string \<Rightarrow> string" where
  "strip s = rev (dropWhile is_space (rev (dropWhile is_space s)))"

text \<open>\<^verbatim>\<open>str(val)\<close> for the value \<^verbatim>\<open>os.getenv\<close> returns: a string or \<^verbatim>\<open>None\<close>.\<close>

definition str_of_opt :: "string option \<Rightarrow> string" where
  "str_of_opt val = (case val of None \<Rightarrow> ''None'' | Some s \<Rightarrow> s)"

text \<open>
  \<^verbatim>\<open>_get_env(name, default=None, required=False)\<close> (an Isabelle name cannot start
  with an underscore).
\<close>

definition get_env :: "environ \<Rightarrow> string \<Rightarrow> string option \<Rightarrow> bool \<Rightarrow> exn + string" where
  "get_env env name dflt required =
     (let val = getenv env name dflt
      in if required \<and> (val = None \<or> strip (str_of_opt val) = '''')
         then Inl (Exn ValueError (''Missing required environment variable: '' @ name))
         else Inr (str_of_opt val))"

section \<open>The database\<close>

text \<open>
  The keyword arguments of \<^verbatim>\<open>psycopg2.connect\<close> that \<^verbatim>\<open>_pg_conn_params\<close> builds.
\<close>

record conn_params =
  host :: string
  port :: int
  dbname :: string
  user :: string
  password :: string

text \<open>
  \<^verbatim>\<open>_pg_conn_params()\<close>: no variable is required, so no read of the environment raises;
  \<^verbatim>\<open>int(...)\<close> of the port may.
\<close>

definition pg_conn_params :: "'f builtins \<Rightarrow> environ \<Rightarrow> exn + conn_params" where
  "pg_conn_params bi env =
     and_then (get_env env ''PG_HOST'' (Some ''localhost'') False) (\<lambda>h.
     and_then (get_env env ''PG_PORT'' (Some ''5433'') False) (\<lambda>ps.
     and_then (py_int bi ps) (\<lambda>p.
     and_then (get_env env ''PG_DATABASE'' (Some ''weatherdb'') False) (\<lambda>d.
     and_then (get_env env ''PG_USER'' (Some ''weather'') False) (\<lambda>u.
     and_then (get_env env ''PG_PASSWORD'' (Some ''weather'') False) (\<lambda>pw.
     Inr \<lparr>host = h, port = p, dbname = d, user = u, password = pw\<rparr>))))))"

text \<open>
  The server as one call sees it: whether \<^verbatim>\<open>psycopg2.connect\<close> raises, the value of
  \<^verbatim>\<open>now()\<close> for the statement (microseconds, on the server's clock), and which values
  the driver can adapt and the server store in a column of the table (the types of
  \<^verbatim>\<open>CREATE_TABLE_SQL\<close>; the conversion rules are the driver's and the server's).
\<close>

record 'f server =
  connect :: "conn_params \<Rightarrow> exn option"
  now :: int
  accepts_value :: "string \<Rightarrow> 'f pyval \<Rightarrow> bool"

datatype relkind = Table | Index string

text \<open>
  A stored row of \<^verbatim>\<open>weather_current\<close>: \<^verbatim>\<open>fetched_at\<close>, filled by its default
  \<^verbatim>\<open>now()\<close>, and the eighteen columns of the INSERT by name. The serial \<^verbatim>\<open>id\<close> is
  left out: nothing in the program reads it.
\<close>

record 'f stored =
  fetched_at :: int
  cols :: "(string \<times> 'f pyval) list"

text \<open>
  The database: the catalogue of relations (tables and indexes share one namespace)
  and the rows of \<^verbatim>\<open>weather_current\<close>, oldest insert first.
\<close>

record 'f database =
  catalog :: "(string \<times> relkind) list"
  rows :: "'f stored list"

definition table_name :: string where
  "table_name = ''weather_current''"

definition index_name :: string where
  "index_name = ''idx_weather_current_fetched_at''"

text \<open>\<^verbatim>\<open>CREATE TABLE IF NOT EXISTS name (...)\<close>: skipped when a relation has the name.\<close>

definition create_table_if_not_exists :: "string \<Rightarrow> 'f database \<Rightarrow> exn + 'f database" where
  "create_table_if_not_exists name db =
     (if map_of (catalog db) name \<noteq> None then Inr db
      else Inr (db\<lparr>catalog := catalog db @ [(name, Table)]\<rparr>))"

text \<open>
  \<^verbatim>\<open>CREATE INDEX IF NOT EXISTS idx ON tbl (...)\<close>: the table must be there; skipped
  when a relation has the index's name.
\<close>

definition create_index_if_not_exists ::
  "string \<Rightarrow> string \<Rightarrow> 'f database \<Rightarrow> exn + 'f database" where
  "create_index_if_not_exists idx tbl db =
     (if map_of (catalog db) tbl \<noteq> Some Table
      then Inl (Exn ProgrammingError (''relation '' @ tbl @ '' is not a table''))
      else if map_of (catalog db) idx \<noteq> None then Inr db
      else Inr (db\<lparr>catalog := catalog db @ [(idx, Index tbl)]\<rparr>))"

text \<open>
  \<^verbatim>\<open>CREATE_TABLE_SQL\<close>: the two statements of the one \<^verbatim>\<open>cur.execute\<close>. An error
  returns no new database: the statements of one query string commit together.
\<close>

definition CREATE_TABLE_SQL :: "'f database \<Rightarrow> exn + 'f database" where
  "CREATE_TABLE_SQL db =
     and_then (create_table_if_not_exists table_name db)
       (create_index_if_not_exists index_name table_name)"

text \<open>
  Opening the connection, as each function that touches the database does first:
  \<^verbatim>\<open>psycopg2.connect(**_pg_conn_params())\<close>.
\<close>

definition open_connection :: "'f builtins \<Rightarrow> environ \<Rightarrow> 'f server \<Rightarrow> exn + unit" where
  "open_connection bi env srv =
     and_then (pg_conn_params bi env) (\<lambda>params.
       (case connect srv params of Some e \<Rightarrow> Inl e | None \<Rightarrow> Inr ()))"

definition ensure_table ::
  "'f builtins \<Rightarrow> environ \<Rightarrow> 'f server \<Rightarrow> 'f database \<Rightarrow> exn + 'f database" where
  "ensure_table bi env srv db =
     and_then (open_connection bi env srv) (\<lambda>conn. CREATE_TABLE_SQL db)"

section \<open>The weather fetcher\<close>

text \<open>
  The provider as one call sees it: for a base URL and the query parameters, what
  \<^verbatim>\<open>requests.get(base_url, params=..., timeout=20)\<close> followed by \<^verbatim>\<open>resp.json()\<close>
  gives, an exception (network, timeout, decoding) or the decoded body.
\<close>

type_synonym 'f http = "string \<Rightarrow> (string \<times> string) list \<Rightarrow> exn + 'f pyval"

definition base_urls :: "string list" where
  "base_urls =
     [''https://api.weatherstack.com/current'', ''http://api.weatherstack.com/current'']"

text \<open>\<^verbatim>\<open>isinstance(data, dict) and data.get("success") is False\<close>\<close>

fun success_is_false :: "'f pyval \<Rightarrow> bool" where
  "success_is_false (PDict kvs) = (map_of kvs ''success'' = Some (PBool False))"
| "success_is_false v = False"

text \<open>
  The body of the \<^verbatim>\<open>try\<close>, for one base URL: the request and its decoding, the
  raise for a failure the provider reports (\<open>api_error\<close>), and the raise for a body
  without \<^verbatim>\<open>current\<close> (\<open>check_shape\<close>), which returns the data otherwise.
\<close>

definition api_error :: "'f builtins \<Rightarrow> 'f pyval \<Rightarrow> exn + 'f pyval" where
  "api_error bi data =
     and_then (py_get data ''error'' (PDict [])) (\<lambda>err.
     and_then (py_get err ''code'' PNone) (\<lambda>code.
     and_then (py_get err ''info'' PNone) (\<lambda>info.
     Inl (Exn RuntimeError
           (''Weatherstack API error (code='' @ py_str bi code @ ''): '' @
            py_str bi info)))))"

definition check_shape :: "'f builtins \<Rightarrow> 'f pyval \<Rightarrow> exn + 'f pyval" where
  "check_shape bi data =
     and_then (py_contains ''current'' data) (\<lambda>present.
       if \<not> present
       then Inl (Exn RuntimeError (''Unexpected API response shape: '' @ py_str bi data))
       else Inr data)"

definition request_params :: "string \<Rightarrow> string \<Rightarrow> string \<Rightarrow> (string \<times> string) list" where
  "request_params query api_key units =
     [(''access_key'', api_key), (''query'', query), (''units'', units)]"

definition fetch_attempt ::
  "'f builtins \<Rightarrow> 'f http \<Rightarrow> string \<Rightarrow> string \<Rightarrow> string \<Rightarrow> string \<Rightarrow> exn + 'f pyval" where
  "fetch_attempt bi http base_url query api_key units =
     and_then (http base_url (request_params query api_key units))
       (\<lambda>data. if success_is_false data then api_error bi data else check_shape bi data)"

text \<open>\<^verbatim>\<open>f"{last_error}"\<close>: \<^verbatim>\<open>None\<close> before any failure.\<close>

definition str_of_last :: "exn option \<Rightarrow> string" where
  "str_of_last last_error = (case last_error of None \<Rightarrow> ''None'' | Some e \<Rightarrow> exn_msg e)"

text \<open>
  The \<^verbatim>\<open>for\<close> loop over the base URLs with \<^verbatim>\<open>last_error\<close>, and the final
  \<^verbatim>\<open>raise\<close>. The first component lists the URLs requested, in order.
\<close>

fun fetch_loop ::
  "'f builtins \<Rightarrow> 'f http \<Rightarrow> string \<Rightarrow> string \<Rightarrow> string \<Rightarrow> string list \<Rightarrow> exn option \<Rightarrow>
   string list \<times> (exn + 'f pyval)" where
  "fetch_loop bi http query api_key units [] last_error =
     ([], Inl (Exn RuntimeError
        (''Failed calling Weatherstack API (https/http). Last error: '' @
         str_of_last last_error)))"
| "fetch_loop bi http query api_key units (base_url # rest) last_error =
     (case fetch_attempt bi http base_url query api_key units of
        Inr data \<Rightarrow> ([base_url], Inr data)
      | Inl e \<Rightarrow>
          (case fetch_loop bi http query api_key units rest (Some e) of
             (reqs, r) \<Rightarrow> (base_url # reqs, r)))"

definition fetch_weather_from_api ::
  "'f builtins \<Rightarrow> 'f http \<Rightarrow> string \<Rightarrow> string \<Rightarrow> string \<Rightarrow> string list \<times> (exn + 'f pyval)" where
  "fetch_weather_from_api bi http query api_key units =
     fetch_loop bi http query api_key units base_urls None"

section \<open>The row loader\<close>

text \<open>\<^verbatim>\<open>api_payload.get(name, {}) or {}\<close>\<close>

definition section_of :: "'f builtins \<Rightarrow> 'f pyval \<Rightarrow> string \<Rightarrow> exn + 'f pyval" where
  "section_of bi api_payload name =
     and_then (py_get api_payload name (PDict []))
       (\<lambda>v. Inr (if truthy bi v then v else PDict []))"

text \<open>
  The entries \<^verbatim>\<open>"column": obj.get("key")\<close> of the row, in the order of the source:
  pairs of a column and the key it is read from.
\<close>

fun read_fields ::
  "'f pyval \<Rightarrow> (string \<times> string) list \<Rightarrow> exn + (string \<times> 'f pyval) list" where
  "read_fields obj [] = Inr []"
| "read_fields obj ((column, key) # rest) =
     and_then (py_get obj key PNone) (\<lambda>v.
     and_then (read_fields obj rest) (\<lambda>r. Inr ((column, v) # r)))"

definition request_fields :: "(string \<times> string) list" where
  "request_fields = [(''query_text'', ''query'')]"

definition location_fields :: "(string \<times> string) list" where
  "location_fields =
     [(''location_name'', ''name''), (''region'', ''region''), (''country'', ''country'')]"

definition current_fields :: "(string \<times> string) list" where
  "current_fields =
     [(''observation_time'', ''observation_time''), (''temperature_c'', ''temperature''),
      (''humidity'', ''humidity''), (''wind_speed'', ''wind_speed''),
      (''wind_dir'', ''wind_dir''), (''pressure'', ''pressure''), (''precip'', ''precip''),
      (''cloudcover'', ''cloudcover''), (''uv_index'', ''uv_index''),
      (''visibility'', ''visibility''), (''is_day'', ''is_day'')]"

fun is_none :: "'f pyval \<Rightarrow> bool" where
  "is_none PNone = True"
| "is_none v = False"

text \<open>\<^verbatim>\<open>float(location[key]) if location.get(key) is not None else None\<close>\<close>

definition coordinate :: "'f builtins \<Rightarrow> 'f pyval \<Rightarrow> string \<Rightarrow> exn + 'f pyval" where
  "coordinate bi location key =
     and_then (py_get location key PNone) (\<lambda>v.
       if \<not> is_none v
       then and_then (py_getitem location key) (\<lambda>x.
            and_then (py_float bi x) (\<lambda>f. Inr (PFloat f)))
       else Inr PNone)"

text \<open>
  The dictionary \<^verbatim>\<open>row\<close> of \<^verbatim>\<open>load_to_postgres\<close>, its entries evaluated in the
  order of the source.
\<close>

definition build_row :: "'f builtins \<Rightarrow> 'f pyval \<Rightarrow> exn + (string \<times> 'f pyval) list" where
  "build_row bi api_payload =
     and_then (section_of bi api_payload ''request'') (\<lambda>request_obj.
     and_then (section_of bi api_payload ''location'') (\<lambda>location.
     and_then (section_of bi api_payload ''current'') (\<lambda>current.
     and_then (read_fields request_obj request_fields) (\<lambda>r1.
     and_then (read_fields location location_fields) (\<lambda>r2.
     and_then (coordinate bi location ''lat'') (\<lambda>lat.
     and_then (coordinate bi location ''lon'') (\<lambda>lon.
     and_then (read_fields current current_fields) (\<lambda>r3.
     Inr (r1 @ r2 @ [(''latitude'', lat), (''longitude'', lon)] @ r3 @
          [(''raw'', api_payload)])))))))))"

text \<open>\<^verbatim>\<open>row["raw"] = Json(row["raw"])\<close>\<close>

definition wrap_raw :: "(string \<times> 'f pyval) list \<Rightarrow> exn + (string \<times> 'f pyval) list" where
  "wrap_raw row =
     and_then (py_getitem (PDict row) ''raw'') (\<lambda>v.
       Inr (map (\<lambda>kv. if fst kv = ''raw'' then (fst kv, Json v) else kv) row))"

text \<open>The columns of the INSERT, and those that \<^verbatim>\<open>CREATE_TABLE_SQL\<close> declares NOT NULL.\<close>

definition insert_columns :: "string list" where
  "insert_columns =
     [''query_text'', ''location_name'', ''region'', ''country'', ''latitude'', ''longitude'',
      ''observation_time'', ''temperature_c'', ''humidity'', ''wind_speed'', ''wind_dir'',
      ''pressure'', ''precip'', ''cloudcover'', ''uv_index'', ''visibility'', ''is_day'',
      ''raw'']"

definition not_null_columns :: "string list" where
  "not_null_columns = [''query_text'', ''raw'']"

text \<open>The placeholders \<^verbatim>\<open>%(name)s\<close>, filled from the row by name.\<close>

fun bind_params ::
  "string list \<Rightarrow> (string \<times> 'f pyval) list \<Rightarrow> exn + (string \<times> 'f pyval) list" where
  "bind_params [] row = Inr []"
| "bind_params (c # cs) row =
     and_then (py_getitem (PDict row) c) (\<lambda>v.
     and_then (bind_params cs row) (\<lambda>r. Inr ((c, v) # r)))"

text \<open>
  \<^verbatim>\<open>cur.execute(insert_sql, row)\<close>: one statement, committed at once. It raises, and
  stores nothing, when the table is missing, when a value does not fit its column or
  when a NOT NULL column gets \<^verbatim>\<open>None\<close>; otherwise it appends one row.
\<close>

definition insert_sql ::
  "'f server \<Rightarrow> (string \<times> 'f pyval) list \<Rightarrow> 'f database \<Rightarrow> exn + 'f database" where
  "insert_sql srv row db =
     and_then (bind_params insert_columns row) (\<lambda>vals.
       if map_of (catalog db) table_name \<noteq> Some Table
       then Inl (Exn ProgrammingError (''relation '' @ table_name @ '' does not exist''))
       else if \<not> list_all (\<lambda>cv. accepts_value srv (fst cv) (snd cv)) vals
       then Inl (Exn DataError ''a value does not fit its column'')
       else if list_ex (\<lambda>c. map_of vals c = Some PNone) not_null_columns
       then Inl (Exn IntegrityError ''null value violates not-null constraint'')
       else Inr (db\<lparr>rows := rows db @ [\<lparr>fetched_at = now srv, cols = vals\<rparr>]\<rparr>))"

definition load_to_postgres ::
  "'f builtins \<Rightarrow> environ \<Rightarrow> 'f server \<Rightarrow> 'f pyval \<Rightarrow> 'f database \<Rightarrow> exn + 'f database" where
  "load_to_postgres bi env srv api_payload db =
     and_then (build_row bi api_payload) (\<lambda>row.
     and_then (open_connection bi env srv) (\<lambda>conn.
     and_then (wrap_raw row) (\<lambda>row'. insert_sql srv row' db)))"

section \<open>The retention pruner\<close>

definition RETENTION_DAYS :: int where
  "RETENTION_DAYS = 2"

text \<open>
  \<^verbatim>\<open>(n || ' days')::interval\<close> in microseconds, a day being 24 hours (the session's
  time zone has no clock change in the window).
\<close>

definition days :: "int \<Rightarrow> int" where
  "days n = n * 86400000000"

text \<open>
  \<^verbatim>\<open>DELETE FROM weather_current WHERE fetched_at < now() - (%s || ' days')::interval\<close>
\<close>

definition delete_sql :: "'f server \<Rightarrow> int \<Rightarrow> 'f database \<Rightarrow> exn + 'f database" where
  "delete_sql srv n db =
     (if map_of (catalog db) table_name \<noteq> Some Table
      then Inl (Exn ProgrammingError (''relation '' @ table_name @ '' does not exist''))
      else Inr (db\<lparr>rows := filter (\<lambda>r. \<not> fetched_at r < now srv - days n) (rows db)\<rparr>))"

definition cleanup_old_rows ::
  "'f builtins \<Rightarrow> environ \<Rightarrow> 'f server \<Rightarrow> 'f database \<Rightarrow> exn + 'f database" where
  "cleanup_old_rows bi env srv db =
     and_then (open_connection bi env srv) (\<lambda>conn. delete_sql srv RETENTION_DAYS db)"

section \<open>The task that fetches and loads\<close>

text \<open>
  \<^verbatim>\<open>extract_and_load()\<close>: the URLs requested, and the exception raised or the database
  after the insert.
\<close>

definition extract_and_load ::
  "'f builtins \<Rightarrow> environ \<Rightarrow> 'f http \<Rightarrow> 'f server \<Rightarrow> 'f database \<Rightarrow>
   string list \<times> (exn + 'f database)" where
  "extract_and_load bi env http srv db =
     (case get_env env ''WEATHERSTACK_API_KEY'' None True of
        Inl e \<Rightarrow> ([], Inl e)
      | Inr api_key \<Rightarrow>
     (case get_env env ''WEATHERSTACK_QUERY'' (Some ''Jakarta'') False of
        Inl e \<Rightarrow> ([], Inl e)
      | Inr query \<Rightarrow>
     (case get_env env ''WEATHERSTACK_UNITS'' (Some ''m'') False of
        Inl e \<Rightarrow> ([], Inl e)
      | Inr units \<Rightarrow>
     (case fetch_weather_from_api bi http query api_key units of
        (reqs, r) \<Rightarrow>
          (reqs, and_then r (\<lambda>payload. load_to_postgres bi env srv payload db))))))"

section \<open>The mapping as the specification documents it\<close>

text \<open>
  Following the specification's words, not the source: the field \<open>key\<close> of the
  section \<open>sec\<close> of a payload, null when the section or the field is missing.
\<close>

fun field :: "'f pyval \<Rightarrow> string \<Rightarrow> string \<Rightarrow> 'f pyval" where
  "field (PDict kvs) sec key =
     (case map_of kvs sec of
        Some (PDict m) \<Rightarrow> (case map_of m key of Some v \<Rightarrow> v | None \<Rightarrow> PNone)
      | _ \<Rightarrow> PNone)"
| "field v sec key = PNone"

text \<open>
  Following the specification's words: a coordinate is coerced to floating point only
  when present, and is null when absent; a value that cannot be coerced is an error.
\<close>

definition coerced :: "'f builtins \<Rightarrow> 'f pyval \<Rightarrow> exn + 'f pyval" where
  "coerced bi v =
     (if is_none v then Inr PNone
      else and_then (py_float bi v) (\<lambda>f. Inr (PFloat f)))"

text \<open>
  Following the specification's words: the flattened row of a payload, each column
  with the field it comes from, and the whole payload in the archive column.
\<close>

definition documented_row :: "'f builtins \<Rightarrow> 'f pyval \<Rightarrow> exn + (string \<times> 'f pyval) list" where
  "documented_row bi p =
     and_then (coerced bi (field p ''location'' ''lat'')) (\<lambda>lat.
     and_then (coerced bi (field p ''location'' ''lon'')) (\<lambda>lon.
     Inr [(''query_text'', field p ''request'' ''query''),
          (''location_name'', field p ''location'' ''name''),
          (''region'', field p ''location'' ''region''),
          (''country'', field p ''location'' ''country''),
          (''latitude'', lat),
          (''longitude'', lon),
          (''observation_time'', field p ''current'' ''observation_time''),
          (''temperature_c'', field p ''current'' ''temperature''),
          (''humidity'', field p ''current'' ''humidity''),
          (''wind_speed'', field p ''current'' ''wind_speed''),
          (''wind_dir'', field p ''current'' ''wind_dir''),
          (''pressure'', field p ''current'' ''pressure''),
          (''precip'', field p ''current'' ''precip''),
          (''cloudcover'', field p ''current'' ''cloudcover''),
          (''uv_index'', field p ''current'' ''uv_index''),
          (''visibility'', field p ''current'' ''visibility''),
          (''is_day'', field p ''current'' ''is_day''),
          (''raw'', p)]))"

text \<open>The row as it is stored: the archive column holds the payload in its adapter.\<close>

definition archived :: "(string \<times> 'f pyval) list \<Rightarrow> 'f pyval \<Rightarrow> (string \<times> 'f pyval) list" where
  "archived row p = butlast row @ [(''raw'', Json p)]"

section \<open>A concrete interpreter, provider and server for the examples\<close>

text \<open>
  The examples run the program with floats read as exact decimal fractions. The reader
  below takes an optional sign and digits with at most one point, between optional
  whitespace; exponents, \<^verbatim>\<open>inf\<close>, \<^verbatim>\<open>nan\<close> and digit separators are outside the
  examples and are refused here.
\<close>

fun digits_value :: "string \<Rightarrow> nat \<Rightarrow> nat option" where
  "digits_value [] acc = Some acc"
| "digits_value (c # cs) acc =
     (if 48 \<le> (of_char c :: nat) \<and> (of_char c :: nat) \<le> 57
      then digits_value cs (10 * acc + ((of_char c :: nat) - 48))
      else None)"

definition unsigned_decimal :: "string \<Rightarrow> rat option" where
  "unsigned_decimal s =
     (let ip = takeWhile (\<lambda>c. c \<noteq> CHR ''.'') s;
          fp = drop 1 (dropWhile (\<lambda>c. c \<noteq> CHR ''.'') s)
      in if ip @ fp = [] then None
         else map_option (\<lambda>n. of_nat n / 10 ^ length fp) (digits_value (ip @ fp) 0))"

definition signed_decimal :: "string \<Rightarrow> rat option" where
  "signed_decimal s =
     (case strip s of
        [] \<Rightarrow> None
      | c # cs \<Rightarrow>
          if c = CHR ''-'' then map_option uminus (unsigned_decimal cs)
          else if c = CHR ''+'' then unsigned_decimal cs
          else unsigned_decimal (c # cs))"

fun example_float :: "rat pyval \<Rightarrow> exn + rat" where
  "example_float (PFloat x) = Inr x"
| "example_float (PInt n) = Inr (of_int n)"
| "example_float (PBool b) = Inr (if b then 1 else 0)"
| "example_float (PStr s) =
     (case signed_decimal s of
        Some x \<Rightarrow> Inr x
      | None \<Rightarrow>
          Inl (Exn ValueError
                (''could not convert string to float: '' @ [CHR 0x27] @ s @ [CHR 0x27])))"
| "example_float v =
     Inl (Exn TypeError
           (''float() argument must be a string or a real number, not '' @
            [CHR 0x27] @ type_name v @ [CHR 0x27]))"

definition example_int :: "string \<Rightarrow> exn + int" where
  "example_int s =
     (case (case strip s of
              [] \<Rightarrow> None
            | c # cs \<Rightarrow>
                if cs \<noteq> [] \<and> c = CHR ''-'' then map_option (\<lambda>n. - int n) (digits_value cs 0)
                else if cs \<noteq> [] \<and> c = CHR ''+'' then map_option int (digits_value cs 0)
                else map_option int (digits_value (c # cs) 0)) of
        Some n \<Rightarrow> Inr n
      | None \<Rightarrow>
          Inl (Exn ValueError
                (''invalid literal for int() with base 10: '' @ [CHR 0x27] @ s @ [CHR 0x27])))"

fun show_nat :: "nat \<Rightarrow> string" where
  "show_nat n =
     (if n < 10 then [''0123456789'' ! n]
      else show_nat (n div 10) @ [''0123456789'' ! (n mod 10)])"

text \<open>
  What an f-string prints for \<^verbatim>\<open>None\<close>, a boolean, an integer and a string. The
  examples print no other value; one is shown by the name of its type.
\<close>

fun example_str :: "rat pyval \<Rightarrow> string" where
  "example_str PNone = ''None''"
| "example_str (PBool b) = (if b then ''True'' else ''False'')"
| "example_str (PInt n) = (if n < 0 then ''-'' @ show_nat (nat (- n)) else show_nat (nat n))"
| "example_str (PStr s) = s"
| "example_str v = ''<'' @ type_name v @ ''>''"

definition example_builtins :: "rat builtins" where
  "example_builtins =
     \<lparr>py_float = example_float, py_int = example_int, py_str = example_str,
      float_truthy = (\<lambda>x. x \<noteq> 0)\<rparr>"

text \<open>The payload of the end-to-end example.\<close>

definition jakarta_payload :: "rat pyval" where
  "jakarta_payload =
     PDict [(''request'', PDict [(''query'', PStr ''Jakarta'')]),
            (''location'', PDict [(''name'', PStr ''Jakarta''), (''lat'', PStr ''-6.21''),
                                  (''lon'', PStr ''106.85'')]),
            (''current'', PDict [(''temperature'', PInt 29), (''humidity'', PInt 70)])]"

text \<open>The failure the provider reports for an invalid access key.\<close>

definition invalid_key_payload :: "rat pyval" where
  "invalid_key_payload =
     PDict [(''success'', PBool False),
            (''error'', PDict [(''code'', PInt 101), (''type'', PStr ''invalid_access_key''),
                               (''info'', PStr ''You have not supplied a valid API Access Key.'')])]"

text \<open>
  Payloads with a \<^verbatim>\<open>current\<close> section: one whose latitude is not a number, one
  without a \<^verbatim>\<open>request\<close> section, one whose \<^verbatim>\<open>location\<close> is null.
\<close>

definition north_payload :: "rat pyval" where
  "north_payload =
     PDict [(''request'', PDict [(''query'', PStr ''Jakarta'')]),
            (''location'', PDict [(''name'', PStr ''Jakarta''), (''lat'', PStr ''north''),
                                  (''lon'', PStr ''106.85'')]),
            (''current'', PDict [(''temperature'', PInt 29), (''humidity'', PInt 70)])]"

definition no_request_payload :: "rat pyval" where
  "no_request_payload =
     PDict [(''location'', PDict [(''name'', PStr ''Jakarta''), (''lat'', PStr ''-6.21''),
                                  (''lon'', PStr ''106.85'')]),
            (''current'', PDict [(''temperature'', PInt 29), (''humidity'', PInt 70)])]"

definition null_location_payload :: "rat pyval" where
  "null_location_payload =
     PDict [(''request'', PDict [(''query'', PStr ''Jakarta'')]),
            (''location'', PNone),
            (''current'', PDict [(''temperature'', PInt 29), (''humidity'', PInt 70)])]"

text \<open>An environment with the credential only, and one with nothing set.\<close>

definition example_env :: environ where
  "example_env = map_of [(''WEATHERSTACK_API_KEY'', ''secret'')]"

definition empty_env :: environ where
  "empty_env = (\<lambda>name. None)"

text \<open>An environment whose credential is a space and a tab.\<close>

definition blank_env :: environ where
  "blank_env = map_of [(''WEATHERSTACK_API_KEY'', [CHR 0x20, CHR 0x09])]"

text \<open>Providers: one that answers every request with the same body,\<close>

definition always :: "rat pyval \<Rightarrow> rat http" where
  "always body = (\<lambda>url params. Inr body)"

text \<open>one whose secure endpoint cannot be reached and whose other endpoint answers,\<close>

definition https_down :: "rat pyval \<Rightarrow> rat http" where
  "https_down body =
     (\<lambda>url params.
        if url = ''https://api.weatherstack.com/current''
        then Inl (Exn (OtherError ''ConnectionError'') ''connection refused'')
        else Inr body)"

text \<open>and one that cannot be reached at all (the second endpoint times out).\<close>

definition unreachable :: "rat http" where
  "unreachable =
     (\<lambda>url params.
        if url = ''https://api.weatherstack.com/current''
        then Inl (Exn (OtherError ''ConnectionError'') ''connection refused'')
        else Inl (Exn (OtherError ''Timeout'') ''read timed out''))"

text \<open>
  A provider whose secure endpoint answers with one body and whose other endpoint
  answers with another, and a body without the \<^verbatim>\<open>current\<close> section.
\<close>

definition https_answers :: "rat pyval \<Rightarrow> rat pyval \<Rightarrow> rat http" where
  "https_answers first second =
     (\<lambda>url params.
        if url = ''https://api.weatherstack.com/current'' then Inr first else Inr second)"

definition no_current_payload :: "rat pyval" where
  "no_current_payload =
     PDict [(''request'', PDict [(''query'', PStr ''Jakarta'')]),
            (''location'', PDict [(''name'', PStr ''Jakarta'')])]"

text \<open>A server that can be reached and takes every value, at some instant.\<close>

definition example_server :: "rat server" where
  "example_server =
     \<lparr>connect = (\<lambda>params. None), now = 1000000000000, accepts_value = (\<lambda>c v. True)\<rparr>"

text \<open>A fresh database, and one with the table, its index and no row.\<close>

definition fresh_db :: "rat database" where
  "fresh_db = \<lparr>catalog = [], rows = []\<rparr>"

definition provisioned_db :: "rat database" where
  "provisioned_db =
     \<lparr>catalog = [(''weather_current'', Table),
                 (''idx_weather_current_fetched_at'', Index ''weather_current'')],
      rows = []\<rparr>"

text \<open>
  A database with three rows fetched three days, exactly two days and one day before
  the instant of \<open>example_server\<close>.
\<close>

definition row_at :: "int \<Rightarrow> rat stored" where
  "row_at t = \<lparr>fetched_at = t, cols = [(''query_text'', PStr ''Jakarta'')]\<rparr>"

definition aged_db :: "rat database" where
  "aged_db =
     \<lparr>catalog = [(''weather_current'', Table),
                 (''idx_weather_current_fetched_at'', Index ''weather_current'')],
      rows = [row_at 740800000000, row_at 827200000000, row_at 913600000000]\<rparr>"

section \<open>Properties\<close>

lemma and_then_Inl [simp]: "and_then (Inl e) f = Inl e"
  by (simp add: and_then_def)

lemma and_then_Inr [simp]: "and_then (Inr x) f = f x"
  by (simp add: and_then_def)

lemma and_then_eq_Inr: "and_then m f = Inr y \<longleftrightarrow> (\<exists>x. m = Inr x \<and> f x = Inr y)"
  by (cases m) simp_all

subsection \<open>The environment reader\<close>

lemma strip_all_space: "list_all is_space s \<Longrightarrow> strip s = []"
proof -
  assume "list_all is_space s"
  then have "dropWhile is_space s = []"
    by (simp add: list_all_iff)
  then have "strip s = rev (dropWhile is_space (rev []))"
    by (simp only: strip_def)
  then show ?thesis
    by simp
qed

text \<open>
  Claim C10. The environment reader: a required variable that is unset raises
  ValueError, and so does a required variable whose value is made of whitespace only
  (the empty string included); a variable that is not required, is unset and has no
  default is returned as the four characters \<open>None\<close>, the string of the missing
  value, and not as a null.
\<close>

theorem get_env_edge_cases:
  "(env name = None \<longrightarrow>
      get_env env name None True =
        Inl (Exn ValueError (''Missing required environment variable: '' @ name)))
   \<and> (env name = Some v \<and> list_all is_space v \<longrightarrow>
      get_env env name dflt True =
        Inl (Exn ValueError (''Missing required environment variable: '' @ name)))
   \<and> (env name = None \<longrightarrow> get_env env name None False = Inr ''None'')"
  by (simp add: get_env_def getenv_def str_of_opt_def strip_all_space)

theorem get_env_edge_cases_witness:
  "get_env empty_env ''WEATHERSTACK_API_KEY'' None True =
     Inl (Exn ValueError ''Missing required environment variable: WEATHERSTACK_API_KEY'')
   \<and> get_env blank_env ''WEATHERSTACK_API_KEY'' None True =
     Inl (Exn ValueError ''Missing required environment variable: WEATHERSTACK_API_KEY'')
   \<and> get_env empty_env ''PG_HOST'' None False = Inr ''None''"
  using get_env_edge_cases [of empty_env "''WEATHERSTACK_API_KEY''"]
    get_env_edge_cases [of blank_env "''WEATHERSTACK_API_KEY''" "[CHR 0x20, CHR 0x09]" None]
    get_env_edge_cases [of empty_env "''PG_HOST''"]
  by (simp add: empty_env_def blank_env_def is_space_def)

text \<open>
  Claim C9. When the API credential is missing from the environment,
  \<open>extract_and_load\<close> raises the configuration error of the environment reader
  before anything else happens: no URL is requested, and the result is that error
  whatever the provider, the server and the database are, so no connection is opened
  and no row is inserted.
\<close>

theorem missing_credential_stops_before_any_call:
  assumes "env ''WEATHERSTACK_API_KEY'' = None"
  shows "extract_and_load bi env http srv db =
           ([], Inl (Exn ValueError
                  ''Missing required environment variable: WEATHERSTACK_API_KEY''))"
  using assms by (simp add: extract_and_load_def get_env_def getenv_def)

theorem missing_credential_witness:
  "extract_and_load example_builtins empty_env (always jakarta_payload) example_server
     provisioned_db =
   ([], Inl (Exn ValueError ''Missing required environment variable: WEATHERSTACK_API_KEY''))"
  using missing_credential_stops_before_any_call
    [of empty_env example_builtins "always jakarta_payload" example_server provisioned_db]
  by (simp add: empty_env_def)

subsection \<open>The weather fetcher\<close>

lemma api_error_raises: "\<exists>e. api_error bi data = Inl e"
  unfolding api_error_def
  by (cases "py_get data ''error'' (PDict [])";
      cases "py_get (projr (py_get data ''error'' (PDict []))) ''code'' PNone";
      cases "py_get (projr (py_get data ''error'' (PDict []))) ''info'' PNone";
      simp)

lemma check_shape_Inr:
  "check_shape bi data = Inr d \<longleftrightarrow> py_contains ''current'' data = Inr True \<and> d = data"
  unfolding check_shape_def
  by (cases "py_contains ''current'' data") auto

lemma fetch_attempt_Inr:
  "fetch_attempt bi http url query api_key units = Inr d \<longleftrightarrow>
     http url (request_params query api_key units) = Inr d \<and> \<not> success_is_false d \<and>
     py_contains ''current'' d = Inr True"
proof (cases "http url (request_params query api_key units)")
  case (Inl e)
  then show ?thesis by (simp add: fetch_attempt_def)
next
  case (Inr data)
  obtain e where "api_error bi data = Inl e"
    using api_error_raises by blast
  with Inr show ?thesis
    by (auto simp: fetch_attempt_def check_shape_Inr)
qed

lemma fetch_loop_returns_checked:
  "fetch_loop bi http query api_key units urls last_error = (reqs, Inr d) \<Longrightarrow>
     \<not> success_is_false d \<and> py_contains ''current'' d = Inr True"
proof (induction urls arbitrary: last_error reqs)
  case Nil
  then show ?case by simp
next
  case (Cons u us)
  show ?case
  proof (cases "fetch_attempt bi http u query api_key units")
    case (Inr data)
    with Cons.prems have "d = data" by simp
    with Inr show ?thesis by (simp add: fetch_attempt_Inr)
  next
    case (Inl e)
    with Cons.prems obtain reqs' where
      "fetch_loop bi http query api_key units us (Some e) = (reqs', Inr d)"
      by (auto split: prod.splits)
    then show ?thesis by (rule Cons.IH)
  qed
qed

lemma fetch_returns_checked:
  "fetch_weather_from_api bi http query api_key units = (reqs, Inr d) \<Longrightarrow>
     \<not> success_is_false d \<and> py_contains ''current'' d = Inr True"
  unfolding fetch_weather_from_api_def by (rule fetch_loop_returns_checked)

lemma fetch_returns_dict_with_current:
  "fetch_weather_from_api bi http query api_key units = (reqs, Inr (PDict kvs)) \<Longrightarrow>
     map_of kvs ''current'' \<noteq> None \<and> map_of kvs ''success'' \<noteq> Some (PBool False)"
  by (drule fetch_returns_checked) simp

lemma https_requested_first:
  "\<exists>reqs. fst (fetch_weather_from_api bi http query api_key units) =
     ''https://api.weatherstack.com/current'' # reqs"
  by (cases "fetch_attempt bi http ''https://api.weatherstack.com/current'' query api_key units")
     (auto simp: fetch_weather_from_api_def base_urls_def split: prod.splits)

text \<open>
  Claim C2. Whenever \<open>fetch_weather_from_api\<close> returns a payload, the payload
  contains the \<open>current\<close> key and its success flag is not explicitly false. The
  lemmas above give this for a body that is a dictionary. The check of line 97 is
  \<^verbatim>\<open>"current" not in data\<close> with no \<^verbatim>\<open>isinstance(data, dict)\<close>, which line 93 has:
  for the body \<^verbatim>\<open>["current"]\<close>, a JSON list, the membership test holds and the list
  is returned, a value with no key at all. The evaluation of the function on that
  body:
\<close>

theorem list_body_is_returned:
  "fetch_weather_from_api example_builtins (always (PList [PStr ''current''])) ''Jakarta''
     ''secret'' ''m'' =
   ([''https://api.weatherstack.com/current''], Inr (PList [PStr ''current'']))"
  by (simp add: fetch_weather_from_api_def base_urls_def fetch_attempt_def always_def
      check_shape_def)

text \<open>
  Claim C4. The secure endpoint is requested first. When the first candidate fails,
  that is, its request or its decoding raises, or it answers with a body whose success
  flag is explicitly false or in which \<^verbatim>\<open>current\<close> is not found, and the second
  endpoint answers with a body that passes both checks, the function records the
  failure, goes on to the second endpoint and returns its payload: both URLs are
  requested, the secure one first.
\<close>

theorem fallback_returns_second_payload:
  assumes "http ''https://api.weatherstack.com/current'' (request_params query api_key units)
             = Inl e
           \<or> (http ''https://api.weatherstack.com/current''
                 (request_params query api_key units) = Inr d1
               \<and> (success_is_false d1 \<or> py_contains ''current'' d1 \<noteq> Inr True))"
    and "http ''http://api.weatherstack.com/current'' (request_params query api_key units)
           = Inr d"
    and "\<not> success_is_false d"
    and "py_contains ''current'' d = Inr True"
  shows "fetch_weather_from_api bi http query api_key units =
           ([''https://api.weatherstack.com/current'', ''http://api.weatherstack.com/current''],
            Inr d)"
proof -
  have second: "fetch_attempt bi http ''http://api.weatherstack.com/current'' query api_key
      units = Inr d"
    using assms(2-4) by (simp add: fetch_attempt_Inr)
  have "fetch_attempt bi http ''https://api.weatherstack.com/current'' query api_key units
          \<noteq> Inr d'" for d'
    using assms(1) by (auto simp: fetch_attempt_Inr)
  then obtain e' where first:
    "fetch_attempt bi http ''https://api.weatherstack.com/current'' query api_key units
       = Inl e'"
    by (cases "fetch_attempt bi http ''https://api.weatherstack.com/current'' query api_key
          units") auto
  from first second show ?thesis
    by (simp add: fetch_weather_from_api_def base_urls_def)
qed

theorem fallback_witness:
  "fetch_weather_from_api example_builtins (https_down jakarta_payload) ''Jakarta'' ''secret''
     ''m'' =
   ([''https://api.weatherstack.com/current'', ''http://api.weatherstack.com/current''],
    Inr jakarta_payload)
   \<and> fetch_weather_from_api example_builtins
       (https_answers invalid_key_payload jakarta_payload) ''Jakarta'' ''secret'' ''m'' =
     ([''https://api.weatherstack.com/current'', ''http://api.weatherstack.com/current''],
      Inr jakarta_payload)
   \<and> fetch_weather_from_api example_builtins
       (https_answers no_current_payload jakarta_payload) ''Jakarta'' ''secret'' ''m'' =
     ([''https://api.weatherstack.com/current'', ''http://api.weatherstack.com/current''],
      Inr jakarta_payload)"
proof -
  have ok: "\<not> success_is_false jakarta_payload"
    "py_contains ''current'' jakarta_payload = Inr True"
    by (simp_all add: jakarta_payload_def)
  have down: "https_down jakarta_payload ''https://api.weatherstack.com/current''
        (request_params ''Jakarta'' ''secret'' ''m'') =
      Inl (Exn (OtherError ''ConnectionError'') ''connection refused'')
    \<or> (https_down jakarta_payload ''https://api.weatherstack.com/current''
          (request_params ''Jakarta'' ''secret'' ''m'') = Inr PNone
       \<and> (success_is_false (PNone :: rat pyval) \<or> py_contains ''current'' (PNone :: rat pyval) \<noteq> Inr True))"
    by (simp add: https_down_def)
  have down2: "https_down jakarta_payload ''http://api.weatherstack.com/current''
        (request_params ''Jakarta'' ''secret'' ''m'') = Inr jakarta_payload"
    by (simp add: https_down_def)
  have flagged: "https_answers invalid_key_payload jakarta_payload
        ''https://api.weatherstack.com/current'' (request_params ''Jakarta'' ''secret'' ''m'') =
      Inl (Exn RuntimeError [])
    \<or> (https_answers invalid_key_payload jakarta_payload
          ''https://api.weatherstack.com/current''
          (request_params ''Jakarta'' ''secret'' ''m'') = Inr invalid_key_payload
       \<and> (success_is_false invalid_key_payload \<or>
          py_contains ''current'' invalid_key_payload \<noteq> Inr True))"
    by (simp add: https_answers_def invalid_key_payload_def)
  have flagged2: "https_answers invalid_key_payload jakarta_payload
        ''http://api.weatherstack.com/current'' (request_params ''Jakarta'' ''secret'' ''m'') =
      Inr jakarta_payload"
    by (simp add: https_answers_def)
  have shapeless: "https_answers no_current_payload jakarta_payload
        ''https://api.weatherstack.com/current'' (request_params ''Jakarta'' ''secret'' ''m'') =
      Inl (Exn RuntimeError [])
    \<or> (https_answers no_current_payload jakarta_payload
          ''https://api.weatherstack.com/current''
          (request_params ''Jakarta'' ''secret'' ''m'') = Inr no_current_payload
       \<and> (success_is_false no_current_payload \<or>
          py_contains ''current'' no_current_payload \<noteq> Inr True))"
    by (simp add: https_answers_def no_current_payload_def)
  have shapeless2: "https_answers no_current_payload jakarta_payload
        ''http://api.weatherstack.com/current'' (request_params ''Jakarta'' ''secret'' ''m'') =
      Inr jakarta_payload"
    by (simp add: https_answers_def)
  from fallback_returns_second_payload
      [of "https_down jakarta_payload" "''Jakarta''" "''secret''" "''m''"
          "Exn (OtherError ''ConnectionError'') ''connection refused''" PNone
          jakarta_payload example_builtins, OF down down2 ok]
    fallback_returns_second_payload
      [of "https_answers invalid_key_payload jakarta_payload" "''Jakarta''" "''secret''"
          "''m''" "Exn RuntimeError []" invalid_key_payload jakarta_payload
          example_builtins, OF flagged flagged2 ok]
    fallback_returns_second_payload
      [of "https_answers no_current_payload jakarta_payload" "''Jakarta''" "''secret''"
          "''m''" "Exn RuntimeError []" no_current_payload jakarta_payload
          example_builtins, OF shapeless shapeless2 ok]
  show ?thesis
    by blast
qed

text \<open>
  Claim C5. When the attempt fails on both endpoints, the function raises one
  RuntimeError after requesting both, and its message ends with the text of the last
  failure, the one of the second endpoint.
\<close>

theorem all_candidates_fail_aggregated:
  assumes "fetch_attempt bi http ''https://api.weatherstack.com/current'' query api_key units
             = Inl e1"
    and "fetch_attempt bi http ''http://api.weatherstack.com/current'' query api_key units
           = Inl e2"
  shows "fetch_weather_from_api bi http query api_key units =
           ([''https://api.weatherstack.com/current'', ''http://api.weatherstack.com/current''],
            Inl (Exn RuntimeError
                  (''Failed calling Weatherstack API (https/http). Last error: '' @
                   exn_msg e2)))"
  using assms by (simp add: fetch_weather_from_api_def base_urls_def str_of_last_def)


theorem all_fail_witness:
  "fetch_weather_from_api example_builtins unreachable ''Jakarta'' ''secret'' ''m'' =
   ([''https://api.weatherstack.com/current'', ''http://api.weatherstack.com/current''],
    Inl (Exn RuntimeError
          ''Failed calling Weatherstack API (https/http). Last error: read timed out''))"
  using all_candidates_fail_aggregated
    [of example_builtins unreachable "''Jakarta''" "''secret''" "''m''"
        "Exn (OtherError ''ConnectionError'') ''connection refused''"
        "Exn (OtherError ''Timeout'') ''read timed out''"]
  by (simp add: unreachable_def fetch_attempt_def)

lemma api_error_with_code:
  assumes "map_of kvs ''error'' = Some (PDict err)"
  shows "api_error bi (PDict kvs) =
           Inl (Exn RuntimeError
                 (''Weatherstack API error (code='' @
                  py_str bi (case map_of err ''code'' of Some c \<Rightarrow> c | None \<Rightarrow> PNone) @
                  ''): '' @
                  py_str bi (case map_of err ''info'' of Some c \<Rightarrow> c | None \<Rightarrow> PNone)))"
  using assms by (simp add: api_error_def)

lemma api_error_class:
  "\<exists>c msg. api_error bi data = Inl (Exn c msg)"
proof -
  obtain e where "api_error bi data = Inl e"
    using api_error_raises by blast
  then show ?thesis by (cases e) auto
qed

text \<open>
  Claim C6. When every endpoint answers with a dictionary whose success flag is the
  boolean false, the function raises a RuntimeError; and when the \<open>error\<close> entry
  of the last answer is a dictionary with a \<open>code\<close>, the message of that error
  contains the code as an f-string prints it.
\<close>

theorem provider_failure_message_has_code:
  assumes "http ''https://api.weatherstack.com/current'' (request_params query api_key units)
             = Inr (PDict kvs1)"
    and "map_of kvs1 ''success'' = Some (PBool False)"
    and "http ''http://api.weatherstack.com/current'' (request_params query api_key units)
           = Inr (PDict kvs2)"
    and "map_of kvs2 ''success'' = Some (PBool False)"
  shows "\<exists>msg. fetch_weather_from_api bi http query api_key units =
           ([''https://api.weatherstack.com/current'', ''http://api.weatherstack.com/current''],
            Inl (Exn RuntimeError msg))
         \<and> (\<forall>err code. map_of kvs2 ''error'' = Some (PDict err) \<and>
               map_of err ''code'' = Some code \<longrightarrow> sublist (py_str bi code) msg)"
proof -
  obtain e1 where e1: "api_error bi (PDict kvs1) = Inl e1"
    using api_error_raises by blast
  obtain e2 where e2: "api_error bi (PDict kvs2) = Inl e2"
    using api_error_raises by blast
  let ?msg = "''Failed calling Weatherstack API (https/http). Last error: '' @ exn_msg e2"
  have run: "fetch_weather_from_api bi http query api_key units =
           ([''https://api.weatherstack.com/current'', ''http://api.weatherstack.com/current''],
            Inl (Exn RuntimeError ?msg))"
    using assms e1 e2
    by (simp add: fetch_weather_from_api_def base_urls_def fetch_attempt_def str_of_last_def)
  have "sublist (py_str bi code) ?msg"
    if "map_of kvs2 ''error'' = Some (PDict err)" and "map_of err ''code'' = Some code"
    for err code
  proof -
    from that e2 have "exn_msg e2 =
        ''Weatherstack API error (code='' @ py_str bi code @ ''): '' @
        py_str bi (case map_of err ''info'' of Some c \<Rightarrow> c | None \<Rightarrow> PNone)"
      by (auto simp: api_error_with_code)
    then have "?msg =
        (''Failed calling Weatherstack API (https/http). Last error: '' @
         ''Weatherstack API error (code='') @ py_str bi code @
        (''): '' @ py_str bi (case map_of err ''info'' of Some c \<Rightarrow> c | None \<Rightarrow> PNone))"
      by simp
    then show ?thesis
      unfolding sublist_def by blast
  qed
  with run show ?thesis by blast
qed

theorem provider_failure_witness:
  "\<exists>msg. fetch_weather_from_api example_builtins (always invalid_key_payload) ''Jakarta''
            ''secret'' ''m'' =
          ([''https://api.weatherstack.com/current'', ''http://api.weatherstack.com/current''],
           Inl (Exn RuntimeError msg))
        \<and> sublist ''101'' msg"
proof -
  let ?err = "[(''code'', PInt 101), (''type'', PStr ''invalid_access_key''),
               (''info'', PStr ''You have not supplied a valid API Access Key.'')]"
  let ?kvs = "[(''success'', PBool False), (''error'', PDict ?err)]"
  have body: "always invalid_key_payload url (request_params ''Jakarta'' ''secret'' ''m'') =
                Inr (PDict ?kvs)" for url
    by (simp add: always_def invalid_key_payload_def)
  have flag: "map_of ?kvs ''success'' = Some (PBool False)"
    by simp
  from provider_failure_message_has_code
    [of "always invalid_key_payload" "''Jakarta''" "''secret''" "''m''" ?kvs ?kvs
        example_builtins, OF body flag body flag]
  obtain msg where
    run: "fetch_weather_from_api example_builtins (always invalid_key_payload) ''Jakarta''
            ''secret'' ''m'' =
          ([''https://api.weatherstack.com/current'', ''http://api.weatherstack.com/current''],
           Inl (Exn RuntimeError msg))"
    and code: "\<forall>err code. map_of ?kvs ''error'' = Some (PDict err) \<and>
                 map_of err ''code'' = Some code \<longrightarrow>
                 sublist (py_str example_builtins code) msg"
    by blast
  have "map_of ?kvs ''error'' = Some (PDict ?err) \<and> map_of ?err ''code'' = Some (PInt 101)"
    by simp
  with code have "sublist (py_str example_builtins (PInt 101)) msg"
    by blast
  then have "sublist ''101'' msg"
    by (simp add: example_builtins_def)
  with run show ?thesis
    by blast
qed

subsection \<open>The retention pruner\<close>

lemma example_connection:
  "open_connection example_builtins example_env example_server = Inr ()"
  by (simp add: open_connection_def pg_conn_params_def get_env_def getenv_def example_env_def
      str_of_opt_def example_builtins_def example_int_def strip_def is_space_def
      example_server_def)

lemma delete_sql_rows:
  assumes "map_of (catalog db) table_name = Some Table"
  shows "delete_sql srv n db =
           Inr (db\<lparr>rows := filter (\<lambda>r. now srv - days n \<le> fetched_at r) (rows db)\<rparr>)"
  using assms by (simp add: delete_sql_def not_less)

lemma filter_all_kept: "list_all P xs \<Longrightarrow> filter P xs = xs"
  by (induction xs) simp_all

text \<open>
  Claim C7. With the server reached and the table present, \<open>cleanup_old_rows\<close>
  keeps exactly the rows whose \<open>fetched_at\<close> is not before the server's
  \<open>now()\<close> minus 2 days, in their order: no older row remains, the rows newer
  than the cutoff are the same as before, a database with no row to delete is returned
  unchanged, and a second run on the result changes nothing.
\<close>

theorem cleanup_deletes_exactly_old_rows:
  assumes "open_connection bi env srv = Inr ()"
    and "map_of (catalog db) table_name = Some Table"
  shows "\<exists>db'. cleanup_old_rows bi env srv db = Inr db'
           \<and> catalog db' = catalog db
           \<and> rows db' = filter (\<lambda>r. now srv - days 2 \<le> fetched_at r) (rows db)
           \<and> list_all (\<lambda>r. \<not> fetched_at r < now srv - days 2) (rows db')
           \<and> filter (\<lambda>r. now srv - days 2 < fetched_at r) (rows db') =
               filter (\<lambda>r. now srv - days 2 < fetched_at r) (rows db)
           \<and> (list_all (\<lambda>r. \<not> fetched_at r < now srv - days 2) (rows db) \<longrightarrow> db' = db)
           \<and> cleanup_old_rows bi env srv db' = Inr db'"
proof -
  let ?keep = "\<lambda>r. now srv - days 2 \<le> fetched_at r"
  let ?db' = "db\<lparr>rows := filter ?keep (rows db)\<rparr>"
  have run: "cleanup_old_rows bi env srv db = Inr ?db'"
    using assms by (simp add: cleanup_old_rows_def RETENTION_DAYS_def delete_sql_rows)
  have cat: "map_of (catalog ?db') table_name = Some Table"
    using assms(2) by simp
  have again: "cleanup_old_rows bi env srv ?db' = Inr ?db'"
    using assms(1) cat
    by (simp add: cleanup_old_rows_def RETENTION_DAYS_def delete_sql_rows)
  have none_left: "list_all (\<lambda>r. \<not> fetched_at r < now srv - days 2) (rows ?db')"
    by (simp add: list_all_iff not_less)
  have newer: "filter (\<lambda>r. now srv - days 2 < fetched_at r) (rows ?db') =
               filter (\<lambda>r. now srv - days 2 < fetched_at r) (rows db)"
    by (auto intro: filter_cong)
  have noop: "?db' = db" if "list_all (\<lambda>r. \<not> fetched_at r < now srv - days 2) (rows db)"
  proof -
    from that have "list_all ?keep (rows db)"
      by (simp add: not_less)
    then have "filter ?keep (rows db) = rows db"
      by (rule filter_all_kept)
    then show ?thesis by simp
  qed
  from run again none_left newer noop show ?thesis
    by (intro exI [of _ ?db']) simp
qed

theorem cleanup_witness:
  "cleanup_old_rows example_builtins example_env example_server aged_db =
     Inr (aged_db\<lparr>rows := [row_at 827200000000, row_at 913600000000]\<rparr>)"
proof -
  have tbl: "map_of (catalog aged_db) table_name = Some Table"
    by (simp add: aged_db_def table_name_def)
  from cleanup_deletes_exactly_old_rows [OF example_connection tbl]
  obtain db' where run: "cleanup_old_rows example_builtins example_env example_server aged_db
      = Inr db'"
    and cat: "catalog db' = catalog aged_db"
    and rws: "rows db' =
      filter (\<lambda>r. now example_server - days 2 \<le> fetched_at r) (rows aged_db)"
    by blast
  from rws have "rows db' = [row_at 827200000000, row_at 913600000000]"
    by (simp add: aged_db_def row_at_def example_server_def days_def)
  with cat have "db' = aged_db\<lparr>rows := [row_at 827200000000, row_at 913600000000]\<rparr>"
    by simp
  with run show ?thesis by simp
qed

subsection \<open>The schema provisioner\<close>

lemma count_one:
  "distinct (map fst xs) \<Longrightarrow> map_of xs k = Some v \<Longrightarrow>
     length (filter (\<lambda>r. fst r = k) xs) = 1"
proof (induction xs)
  case Nil
  then show ?case by simp
next
  case (Cons x xs)
  show ?case
  proof (cases "fst x = k")
    case True
    with Cons.prems(1) have "k \<notin> fst ` set xs"
      by auto
    then have "filter (\<lambda>r. fst r = k) xs = []"
      by (auto simp: filter_empty_conv)
    with True show ?thesis by simp
  next
    case False
    with Cons.prems have "map_of xs k = Some v"
      by (cases x) (simp split: if_splits)
    with Cons False show ?thesis by simp
  qed
qed

lemma map_of_snoc:
  "map_of (xs @ [(k, v)]) k' =
     (case map_of xs k' of Some w \<Rightarrow> Some w | None \<Rightarrow> if k' = k then Some v else None)"
  by (induction xs) auto

lemma create_table_provisions:
  assumes "distinct (map fst (catalog db))"
    and "map_of (catalog db) name = None \<or> map_of (catalog db) name = Some Table"
  shows "\<exists>db1. create_table_if_not_exists name db = Inr db1 \<and> rows db1 = rows db \<and>
           distinct (map fst (catalog db1)) \<and> map_of (catalog db1) name = Some Table \<and>
           (\<forall>k. k \<noteq> name \<longrightarrow> map_of (catalog db1) k = map_of (catalog db) k)"
proof (cases "map_of (catalog db) name")
  case None
  let ?db1 = "db\<lparr>catalog := catalog db @ [(name, Table)]\<rparr>"
  from None have "name \<notin> fst ` set (catalog db)"
    by (simp add: map_of_eq_None_iff)
  with assms(1) have "distinct (map fst (catalog ?db1))"
    by simp
  moreover have "create_table_if_not_exists name db = Inr ?db1"
    using None by (simp add: create_table_if_not_exists_def)
  moreover have "map_of (catalog ?db1) name = Some Table"
    using None by (simp add: map_of_snoc del: map_of_append)
  moreover have "\<forall>k. k \<noteq> name \<longrightarrow> map_of (catalog ?db1) k = map_of (catalog db) k"
    by (simp add: map_of_snoc del: map_of_append split: option.splits)
  moreover have "rows ?db1 = rows db"
    by simp
  ultimately show ?thesis
    by blast
next
  case (Some v)
  with assms(2) have "map_of (catalog db) name = Some Table"
    by simp
  moreover from Some have "create_table_if_not_exists name db = Inr db"
    by (simp add: create_table_if_not_exists_def)
  ultimately show ?thesis
    using assms(1) by blast
qed

lemma create_index_provisions:
  assumes "distinct (map fst (catalog db))"
    and "map_of (catalog db) tbl = Some Table"
    and "map_of (catalog db) idx = None \<or> map_of (catalog db) idx = Some (Index tbl)"
  shows "\<exists>db1. create_index_if_not_exists idx tbl db = Inr db1 \<and> rows db1 = rows db \<and>
           distinct (map fst (catalog db1)) \<and> map_of (catalog db1) tbl = Some Table \<and>
           map_of (catalog db1) idx = Some (Index tbl)"
proof (cases "map_of (catalog db) idx")
  case None
  let ?db1 = "db\<lparr>catalog := catalog db @ [(idx, Index tbl)]\<rparr>"
  from None have "idx \<notin> fst ` set (catalog db)"
    by (simp add: map_of_eq_None_iff)
  with assms(1) have "distinct (map fst (catalog ?db1))"
    by simp
  moreover have "create_index_if_not_exists idx tbl db = Inr ?db1"
    using None assms(2) by (simp add: create_index_if_not_exists_def)
  moreover have "map_of (catalog ?db1) idx = Some (Index tbl)"
    using None by (simp add: map_of_snoc del: map_of_append)
  moreover have "map_of (catalog ?db1) tbl = Some Table"
    using assms(2) by (simp add: map_of_snoc del: map_of_append)
  moreover have "rows ?db1 = rows db"
    by simp
  ultimately show ?thesis
    by blast
next
  case (Some v)
  with assms(3) have "map_of (catalog db) idx = Some (Index tbl)"
    by simp
  moreover from Some assms(2) have "create_index_if_not_exists idx tbl db = Inr db"
    by (simp add: create_index_if_not_exists_def)
  ultimately show ?thesis
    using assms(1,2) by blast
qed

lemma CREATE_TABLE_SQL_provisions:
  assumes "distinct (map fst (catalog db))"
    and "map_of (catalog db) table_name = None \<or> map_of (catalog db) table_name = Some Table"
    and "map_of (catalog db) index_name = None \<or>
         map_of (catalog db) index_name = Some (Index table_name)"
  shows "\<exists>db1. CREATE_TABLE_SQL db = Inr db1 \<and> rows db1 = rows db \<and>
           distinct (map fst (catalog db1)) \<and>
           map_of (catalog db1) table_name = Some Table \<and>
           map_of (catalog db1) index_name = Some (Index table_name)"
proof -
  from create_table_provisions [OF assms(1,2)] obtain db1 where
    t: "create_table_if_not_exists table_name db = Inr db1" "rows db1 = rows db"
       "distinct (map fst (catalog db1))" "map_of (catalog db1) table_name = Some Table"
    and same: "\<forall>k. k \<noteq> table_name \<longrightarrow> map_of (catalog db1) k = map_of (catalog db) k"
    by blast
  have "index_name \<noteq> table_name"
    by (simp add: index_name_def table_name_def)
  with same assms(3) have
    "map_of (catalog db1) index_name = None \<or>
     map_of (catalog db1) index_name = Some (Index table_name)"
    by simp
  from create_index_provisions [OF t(3) t(4) this] t(1,2) show ?thesis
    by (auto simp: CREATE_TABLE_SQL_def)
qed

lemma CREATE_TABLE_SQL_noop:
  assumes "map_of (catalog db) table_name = Some Table"
    and "map_of (catalog db) index_name = Some (Index table_name)"
  shows "CREATE_TABLE_SQL db = Inr db"
  using assms
  by (simp add: CREATE_TABLE_SQL_def create_table_if_not_exists_def
      create_index_if_not_exists_def)

text \<open>
  Claim C8. With the server reached, on a catalogue whose names are distinct and
  where the two names of the DDL are free or already name the table and its index,
  \<open>ensure_table\<close> does not raise; a second call on the result does not raise
  and returns the same database; the catalogue then holds exactly one relation of
  each of the two names, the table and its index, and the rows are untouched.
\<close>

theorem ensure_table_idempotent:
  assumes "open_connection bi env srv = Inr ()"
    and "distinct (map fst (catalog db))"
    and "map_of (catalog db) table_name = None \<or> map_of (catalog db) table_name = Some Table"
    and "map_of (catalog db) index_name = None \<or>
         map_of (catalog db) index_name = Some (Index table_name)"
  shows "\<exists>db1. ensure_table bi env srv db = Inr db1
           \<and> ensure_table bi env srv db1 = Inr db1
           \<and> rows db1 = rows db
           \<and> length (filter (\<lambda>r. fst r = table_name) (catalog db1)) = 1
           \<and> length (filter (\<lambda>r. fst r = index_name) (catalog db1)) = 1
           \<and> map_of (catalog db1) table_name = Some Table
           \<and> map_of (catalog db1) index_name = Some (Index table_name)"
proof -
  from CREATE_TABLE_SQL_provisions [OF assms(2-4)] obtain db1 where
    first: "CREATE_TABLE_SQL db = Inr db1" and rws: "rows db1 = rows db"
    and dist: "distinct (map fst (catalog db1))"
    and tbl: "map_of (catalog db1) table_name = Some Table"
    and idx: "map_of (catalog db1) index_name = Some (Index table_name)"
    by blast
  have run: "ensure_table bi env srv db = Inr db1"
    using assms(1) first by (simp add: ensure_table_def)
  have again: "ensure_table bi env srv db1 = Inr db1"
    using assms(1) tbl idx by (simp add: ensure_table_def CREATE_TABLE_SQL_noop)
  from run again rws count_one [OF dist tbl] count_one [OF dist idx] tbl idx
  show ?thesis by blast
qed

theorem ensure_table_witness:
  "ensure_table example_builtins example_env example_server fresh_db = Inr provisioned_db
   \<and> ensure_table example_builtins example_env example_server provisioned_db =
       Inr provisioned_db"
proof -
  have "distinct (map fst (catalog fresh_db))"
    and "map_of (catalog fresh_db) table_name = None \<or>
         map_of (catalog fresh_db) table_name = Some Table"
    and "map_of (catalog fresh_db) index_name = None \<or>
         map_of (catalog fresh_db) index_name = Some (Index table_name)"
    by (simp_all add: fresh_db_def)
  from ensure_table_idempotent [OF example_connection this] obtain db1 where
    run: "ensure_table example_builtins example_env example_server fresh_db = Inr db1"
    and again: "ensure_table example_builtins example_env example_server db1 = Inr db1"
    by blast
  have "ensure_table example_builtins example_env example_server fresh_db =
          Inr provisioned_db"
    using example_connection
    by (simp add: ensure_table_def CREATE_TABLE_SQL_def create_table_if_not_exists_def
        create_index_if_not_exists_def fresh_db_def provisioned_db_def table_name_def
        index_name_def)
  with run again show ?thesis by simp
qed

subsection \<open>The row loader\<close>

text \<open>
  The row the source builds is the row the specification documents: whenever
  \<open>build_row\<close> returns, \<open>documented_row\<close> returns the same row.
\<close>

lemma read_fields_dict:
  "read_fields (PDict m) cks =
     Inr (map (\<lambda>ck. (fst ck, case map_of m (snd ck) of Some v \<Rightarrow> v | None \<Rightarrow> PNone)) cks)"
  by (induction cks) auto

lemma read_fields_Inr_dict:
  assumes "read_fields obj cks = Inr r" and "cks \<noteq> []"
  shows "\<exists>m. obj = PDict m"
proof (cases cks)
  case Nil
  with assms(2) show ?thesis by simp
next
  case (Cons ck rest)
  with assms(1) show ?thesis
    by (cases ck; cases obj) simp_all
qed

lemma section_of_Inr:
  assumes "section_of bi p sec = Inr v"
  shows "\<exists>kvs. p = PDict kvs"
  using assms by (cases p) (simp_all add: section_of_def)

lemma section_of_field:
  assumes "section_of bi p sec = Inr (PDict m)"
  shows "(case map_of m key of Some v \<Rightarrow> v | None \<Rightarrow> PNone) = field p sec key"
proof -
  from assms obtain kvs where p: "p = PDict kvs"
    using section_of_Inr by blast
  show ?thesis
  proof (cases "map_of kvs sec")
    case None
    with assms p show ?thesis
      by (auto simp: section_of_def)
  next
    case (Some v)
    with assms p show ?thesis
      by (cases v) (auto simp: section_of_def split: if_splits)
  qed
qed

lemma coordinate_dict:
  "coordinate bi (PDict m) key =
     coerced bi (case map_of m key of Some v \<Rightarrow> v | None \<Rightarrow> PNone)"
  by (cases "map_of m key") (auto simp: coordinate_def coerced_def)

lemma build_row_documented:
  assumes "build_row bi p = Inr row"
  shows "documented_row bi p = Inr row"
proof -
  from assms obtain request_obj location current r1 r2 lat lon r3 where
    s1: "section_of bi p ''request'' = Inr request_obj"
    and s2: "section_of bi p ''location'' = Inr location"
    and s3: "section_of bi p ''current'' = Inr current"
    and f1: "read_fields request_obj request_fields = Inr r1"
    and f2: "read_fields location location_fields = Inr r2"
    and c1: "coordinate bi location ''lat'' = Inr lat"
    and c2: "coordinate bi location ''lon'' = Inr lon"
    and f3: "read_fields current current_fields = Inr r3"
    and row: "row = r1 @ r2 @ [(''latitude'', lat), (''longitude'', lon)] @ r3 @ [(''raw'', p)]"
    unfolding build_row_def and_then_eq_Inr by blast
  from f1 obtain m1 where m1: "request_obj = PDict m1"
    using read_fields_Inr_dict by (fastforce simp: request_fields_def)
  from f2 obtain m2 where m2: "location = PDict m2"
    using read_fields_Inr_dict by (fastforce simp: location_fields_def)
  from f3 obtain m3 where m3: "current = PDict m3"
    using read_fields_Inr_dict by (fastforce simp: current_fields_def)
  note fld1 = section_of_field [OF s1 [unfolded m1]]
  note fld2 = section_of_field [OF s2 [unfolded m2]]
  note fld3 = section_of_field [OF s3 [unfolded m3]]
  from f1 have r1: "r1 = [(''query_text'', field p ''request'' ''query'')]"
    by (simp add: m1 read_fields_dict request_fields_def fld1)
  from f2 have r2: "r2 = [(''location_name'', field p ''location'' ''name''),
                          (''region'', field p ''location'' ''region''),
                          (''country'', field p ''location'' ''country'')]"
    by (simp add: m2 read_fields_dict location_fields_def fld2)
  from f3 have r3: "r3 = map (\<lambda>ck. (fst ck, field p ''current'' (snd ck))) current_fields"
    by (simp add: m3 read_fields_dict fld3)
  from c1 have lat: "coerced bi (field p ''location'' ''lat'') = Inr lat"
    by (simp add: m2 coordinate_dict fld2)
  from c2 have lon: "coerced bi (field p ''location'' ''lon'') = Inr lon"
    by (simp add: m2 coordinate_dict fld2)
  show ?thesis
    by (simp add: documented_row_def lat lon row r1 r2 r3 current_fields_def)
qed

lemma documented_row_shape:
  assumes "documented_row bi p = Inr row"
  shows "\<exists>lat lon. row =
          [(''query_text'', field p ''request'' ''query''),
           (''location_name'', field p ''location'' ''name''),
           (''region'', field p ''location'' ''region''),
           (''country'', field p ''location'' ''country''),
           (''latitude'', lat),
           (''longitude'', lon),
           (''observation_time'', field p ''current'' ''observation_time''),
           (''temperature_c'', field p ''current'' ''temperature''),
           (''humidity'', field p ''current'' ''humidity''),
           (''wind_speed'', field p ''current'' ''wind_speed''),
           (''wind_dir'', field p ''current'' ''wind_dir''),
           (''pressure'', field p ''current'' ''pressure''),
           (''precip'', field p ''current'' ''precip''),
           (''cloudcover'', field p ''current'' ''cloudcover''),
           (''uv_index'', field p ''current'' ''uv_index''),
           (''visibility'', field p ''current'' ''visibility''),
           (''is_day'', field p ''current'' ''is_day''),
           (''raw'', p)]"
  using assms unfolding documented_row_def and_then_eq_Inr by blast

lemma wrap_raw_documented:
  assumes "documented_row bi p = Inr row"
  shows "wrap_raw row = Inr (archived row p)"
proof -
  from documented_row_shape [OF assms] obtain lat lon where "row =
          [(''query_text'', field p ''request'' ''query''),
           (''location_name'', field p ''location'' ''name''),
           (''region'', field p ''location'' ''region''),
           (''country'', field p ''location'' ''country''),
           (''latitude'', lat),
           (''longitude'', lon),
           (''observation_time'', field p ''current'' ''observation_time''),
           (''temperature_c'', field p ''current'' ''temperature''),
           (''humidity'', field p ''current'' ''humidity''),
           (''wind_speed'', field p ''current'' ''wind_speed''),
           (''wind_dir'', field p ''current'' ''wind_dir''),
           (''pressure'', field p ''current'' ''pressure''),
           (''precip'', field p ''current'' ''precip''),
           (''cloudcover'', field p ''current'' ''cloudcover''),
           (''uv_index'', field p ''current'' ''uv_index''),
           (''visibility'', field p ''current'' ''visibility''),
           (''is_day'', field p ''current'' ''is_day''),
           (''raw'', p)]"
    by blast
  then show ?thesis
    by (simp add: wrap_raw_def archived_def)
qed

lemma bind_params_archived:
  assumes "documented_row bi p = Inr row"
  shows "bind_params insert_columns (archived row p) = Inr (archived row p)"
    and "map_of (archived row p) ''query_text'' = Some (field p ''request'' ''query'')"
    and "map_of (archived row p) ''raw'' = Some (Json p)"
proof -
  from documented_row_shape [OF assms] obtain lat lon where "row =
          [(''query_text'', field p ''request'' ''query''),
           (''location_name'', field p ''location'' ''name''),
           (''region'', field p ''location'' ''region''),
           (''country'', field p ''location'' ''country''),
           (''latitude'', lat),
           (''longitude'', lon),
           (''observation_time'', field p ''current'' ''observation_time''),
           (''temperature_c'', field p ''current'' ''temperature''),
           (''humidity'', field p ''current'' ''humidity''),
           (''wind_speed'', field p ''current'' ''wind_speed''),
           (''wind_dir'', field p ''current'' ''wind_dir''),
           (''pressure'', field p ''current'' ''pressure''),
           (''precip'', field p ''current'' ''precip''),
           (''cloudcover'', field p ''current'' ''cloudcover''),
           (''uv_index'', field p ''current'' ''uv_index''),
           (''visibility'', field p ''current'' ''visibility''),
           (''is_day'', field p ''current'' ''is_day''),
           (''raw'', p)]"
    by blast
  then show "bind_params insert_columns (archived row p) = Inr (archived row p)"
    and "map_of (archived row p) ''query_text'' = Some (field p ''request'' ''query'')"
    and "map_of (archived row p) ''raw'' = Some (Json p)"
    by (simp_all add: archived_def insert_columns_def)
qed

lemma insert_sql_archived:
  assumes "documented_row bi p = Inr row"
    and "map_of (catalog db) table_name = Some Table"
    and "field p ''request'' ''query'' \<noteq> PNone"
    and "list_all (\<lambda>cv. accepts_value srv (fst cv) (snd cv)) (archived row p)"
  shows "insert_sql srv (archived row p) db =
           Inr (db\<lparr>rows := rows db @ [\<lparr>fetched_at = now srv, cols = archived row p\<rparr>]\<rparr>)"
  using assms(2-4) bind_params_archived [OF assms(1)]
  by (simp add: insert_sql_def not_null_columns_def)

lemma insert_sql_null_query:
  assumes "documented_row bi p = Inr row"
    and "field p ''request'' ''query'' = PNone"
  shows "isl (insert_sql srv (archived row p) db)"
  using assms(2) bind_params_archived [OF assms(1)]
  by (simp add: insert_sql_def not_null_columns_def)

text \<open>
  Claim C1, amended. For every payload for which the construction of the row raises
  nothing (the payload is a dictionary, each section is a dictionary or a false value,
  and \<^verbatim>\<open>lat\<close> and \<^verbatim>\<open>lon\<close> are absent, null or accepted by \<^verbatim>\<open>float\<close>), whose
  \<^verbatim>\<open>request.query\<close> is not null, with the server reached, the table present and the
  values accepted for their columns, \<open>load_to_postgres\<close> appends exactly one row:
  its flattened columns are the payload's fields under the documented mapping, its
  \<^verbatim>\<open>fetched_at\<close> is the server's \<^verbatim>\<open>now()\<close>, and its \<^verbatim>\<open>raw\<close> column holds the
  payload itself, unchanged, in the \<^verbatim>\<open>Json\<close> adapter. The witness is the end-to-end
  example of the specification.
\<close>

theorem load_inserts_one_documented_row:
  assumes "build_row bi p = Inr row"
    and "open_connection bi env srv = Inr ()"
    and "map_of (catalog db) table_name = Some Table"
    and "field p ''request'' ''query'' \<noteq> PNone"
    and "list_all (\<lambda>cv. accepts_value srv (fst cv) (snd cv)) (archived row p)"
  shows "documented_row bi p = Inr row
         \<and> load_to_postgres bi env srv p db =
             Inr (db\<lparr>rows := rows db @ [\<lparr>fetched_at = now srv, cols = archived row p\<rparr>]\<rparr>)"
proof -
  have doc: "documented_row bi p = Inr row"
    using assms(1) by (rule build_row_documented)
  have "load_to_postgres bi env srv p db = insert_sql srv (archived row p) db"
    using assms(1,2) by (simp add: load_to_postgres_def wrap_raw_documented [OF doc])
  with doc insert_sql_archived [OF doc assms(3-5)] show ?thesis
    by simp
qed

lemma build_row_jakarta:
  "build_row example_builtins jakarta_payload =
     Inr [(''query_text'', PStr ''Jakarta''), (''location_name'', PStr ''Jakarta''),
          (''region'', PNone), (''country'', PNone), (''latitude'', PFloat (- 621 / 100)),
          (''longitude'', PFloat (10685 / 100)), (''observation_time'', PNone),
          (''temperature_c'', PInt 29), (''humidity'', PInt 70), (''wind_speed'', PNone),
          (''wind_dir'', PNone), (''pressure'', PNone), (''precip'', PNone),
          (''cloudcover'', PNone), (''uv_index'', PNone), (''visibility'', PNone),
          (''is_day'', PNone), (''raw'', jakarta_payload)]"
  by (simp add: build_row_def section_of_def jakarta_payload_def request_fields_def
      location_fields_def current_fields_def coordinate_def example_builtins_def
      signed_decimal_def unsigned_decimal_def strip_def is_space_def)


theorem load_jakarta_witness:
  "load_to_postgres example_builtins example_env example_server jakarta_payload
     provisioned_db =
   Inr (provisioned_db\<lparr>rows :=
     [\<lparr>fetched_at = 1000000000000,
       cols = [(''query_text'', PStr ''Jakarta''), (''location_name'', PStr ''Jakarta''),
               (''region'', PNone), (''country'', PNone),
               (''latitude'', PFloat (- 621 / 100)), (''longitude'', PFloat (10685 / 100)),
               (''observation_time'', PNone), (''temperature_c'', PInt 29),
               (''humidity'', PInt 70), (''wind_speed'', PNone), (''wind_dir'', PNone),
               (''pressure'', PNone), (''precip'', PNone), (''cloudcover'', PNone),
               (''uv_index'', PNone), (''visibility'', PNone), (''is_day'', PNone),
               (''raw'', Json jakarta_payload)]\<rparr>]\<rparr>)"
proof -
  have tbl: "map_of (catalog provisioned_db) table_name = Some Table"
    by (simp add: provisioned_db_def table_name_def)
  have query: "field jakarta_payload ''request'' ''query'' \<noteq> PNone"
    by (simp add: jakarta_payload_def)
  from load_inserts_one_documented_row [OF build_row_jakarta example_connection tbl query]
  show ?thesis
    by (simp add: example_server_def archived_def provisioned_db_def)
qed

text \<open>
  The claim as stated, for every payload with a \<^verbatim>\<open>current\<close> section, fails: a
  latitude that \<^verbatim>\<open>float\<close> refuses makes the construction of the row raise, and no
  row is inserted.
\<close>

theorem load_unparsable_latitude_raises:
  "py_contains ''current'' north_payload = Inr True
   \<and> load_to_postgres example_builtins example_env example_server north_payload
       provisioned_db =
     Inl (Exn ValueError
           (''could not convert string to float: '' @ [CHR 0x27] @ ''north'' @ [CHR 0x27]))"
  by (simp add: load_to_postgres_def build_row_def section_of_def north_payload_def
      request_fields_def location_fields_def current_fields_def coordinate_def
      example_builtins_def signed_decimal_def unsigned_decimal_def strip_def is_space_def)

lemma field_missing_section:
  assumes "map_of kvs sec = None \<or> map_of kvs sec = Some PNone"
  shows "field (PDict kvs) sec key = PNone"
  using assms by auto

lemma coerced_none: "coerced bi PNone = Inr PNone"
  by (simp add: coerced_def)

text \<open>
  Claim C3, amended. Where a section of the payload is missing or null, the section
  defaults to the empty mapping, every field read from it is null and no read raises;
  a coordinate is null when \<^verbatim>\<open>lat\<close> or \<^verbatim>\<open>lon\<close> is absent or null and is the
  \<^verbatim>\<open>float\<close> of the value otherwise; in the row that is built the columns of the
  missing section are null. For the \<^verbatim>\<open>request\<close> section the null \<^verbatim>\<open>query_text\<close>
  does not reach the table: the column is NOT NULL, and \<open>load_to_postgres\<close>
  raises.
\<close>

theorem missing_section_reads_null:
  assumes "map_of kvs sec = None \<or> map_of kvs sec = Some PNone"
  shows "section_of bi (PDict kvs) sec = Inr (PDict [])
       \<and> read_fields (PDict []) cks = Inr (map (\<lambda>ck. (fst ck, PNone)) cks)
       \<and> coordinate bi (PDict []) key = Inr PNone
       \<and> (map_of m key = None \<or> map_of m key = Some PNone \<longrightarrow>
            coordinate bi (PDict m) key = Inr PNone)
       \<and> (map_of m key = Some v \<and> \<not> is_none v \<longrightarrow>
            coordinate bi (PDict m) key = and_then (py_float bi v) (\<lambda>f. Inr (PFloat f)))
       \<and> (build_row bi (PDict kvs) = Inr row \<longrightarrow>
            (sec = ''request'' \<longrightarrow> map_of row ''query_text'' = Some PNone) \<and>
            (sec = ''location'' \<longrightarrow>
               list_all (\<lambda>c. map_of row c = Some PNone)
                 [''location_name'', ''region'', ''country'', ''latitude'', ''longitude'']) \<and>
            (sec = ''current'' \<longrightarrow>
               list_all (\<lambda>c. map_of row c = Some PNone) (map fst current_fields)))
       \<and> (sec = ''request'' \<longrightarrow> isl (load_to_postgres bi env srv (PDict kvs) db))"
proof -
  have sect: "section_of bi (PDict kvs) sec = Inr (PDict [])"
    using assms by (auto simp: section_of_def)
  have reads: "read_fields (PDict []) cks = Inr (map (\<lambda>ck. (fst ck, PNone)) cks)"
    by (simp add: read_fields_dict)
  have coord: "coordinate bi (PDict []) key = Inr PNone"
    by (simp add: coordinate_dict coerced_none)
  have absent: "coordinate bi (PDict m) key = Inr PNone"
    if "map_of m key = None \<or> map_of m key = Some PNone"
    using that by (auto simp: coordinate_dict coerced_none)
  have present: "coordinate bi (PDict m) key = and_then (py_float bi v) (\<lambda>f. Inr (PFloat f))"
    if "map_of m key = Some v \<and> \<not> is_none v"
    using that by (simp add: coordinate_dict coerced_def)
  have fld: "field (PDict kvs) sec k = PNone" for k
    using assms by (rule field_missing_section)
  have cols: "(sec = ''request'' \<longrightarrow> map_of row ''query_text'' = Some PNone) \<and>
            (sec = ''location'' \<longrightarrow>
               list_all (\<lambda>c. map_of row c = Some PNone)
                 [''location_name'', ''region'', ''country'', ''latitude'', ''longitude'']) \<and>
            (sec = ''current'' \<longrightarrow>
               list_all (\<lambda>c. map_of row c = Some PNone) (map fst current_fields))"
    if "build_row bi (PDict kvs) = Inr row"
  proof -
    from that have "documented_row bi (PDict kvs) = Inr row"
      by (rule build_row_documented)
    then obtain lat lon where
      lat: "coerced bi (field (PDict kvs) ''location'' ''lat'') = Inr lat"
      and lon: "coerced bi (field (PDict kvs) ''location'' ''lon'') = Inr lon"
      and row: "row =
          [(''query_text'', field (PDict kvs) ''request'' ''query''),
           (''location_name'', field (PDict kvs) ''location'' ''name''),
           (''region'', field (PDict kvs) ''location'' ''region''),
           (''country'', field (PDict kvs) ''location'' ''country''),
           (''latitude'', lat),
           (''longitude'', lon),
           (''observation_time'', field (PDict kvs) ''current'' ''observation_time''),
           (''temperature_c'', field (PDict kvs) ''current'' ''temperature''),
           (''humidity'', field (PDict kvs) ''current'' ''humidity''),
           (''wind_speed'', field (PDict kvs) ''current'' ''wind_speed''),
           (''wind_dir'', field (PDict kvs) ''current'' ''wind_dir''),
           (''pressure'', field (PDict kvs) ''current'' ''pressure''),
           (''precip'', field (PDict kvs) ''current'' ''precip''),
           (''cloudcover'', field (PDict kvs) ''current'' ''cloudcover''),
           (''uv_index'', field (PDict kvs) ''current'' ''uv_index''),
           (''visibility'', field (PDict kvs) ''current'' ''visibility''),
           (''is_day'', field (PDict kvs) ''current'' ''is_day''),
           (''raw'', PDict kvs)]"
      unfolding documented_row_def and_then_eq_Inr by blast
    have "map_of row ''query_text'' = Some PNone" if "sec = ''request''"
      using fld [of "''query''"] that by (simp add: row del: field.simps)
    moreover have "list_all (\<lambda>c. map_of row c = Some PNone)
                 [''location_name'', ''region'', ''country'', ''latitude'', ''longitude'']"
      if "sec = ''location''"
    proof -
      from that fld have f: "field (PDict kvs) ''location'' k = PNone" for k
        by (simp del: field.simps)
      from lat lon have "lat = PNone" "lon = PNone"
        by (simp_all add: f coerced_none del: field.simps)
      then show ?thesis
        by (simp add: row f del: field.simps)
    qed
    moreover have "list_all (\<lambda>c. map_of row c = Some PNone) (map fst current_fields)"
      if "sec = ''current''"
    proof -
      from that fld have f: "field (PDict kvs) ''current'' k = PNone" for k
        by (simp del: field.simps)
      show ?thesis
        by (simp add: row f current_fields_def del: field.simps)
    qed
    ultimately show ?thesis
      by blast
  qed
  have raises: "isl (load_to_postgres bi env srv (PDict kvs) db)" if "sec = ''request''"
  proof (cases "build_row bi (PDict kvs)")
    case (Inl e)
    then show ?thesis
      by (simp add: load_to_postgres_def)
  next
    case (Inr r)
    then have doc: "documented_row bi (PDict kvs) = Inr r"
      by (rule build_row_documented)
    from that fld have q: "field (PDict kvs) ''request'' ''query'' = PNone"
      by (simp del: field.simps)
    show ?thesis
    proof (cases "open_connection bi env srv")
      case (Inl e)
      with Inr show ?thesis
        by (simp add: load_to_postgres_def)
    next
      case conn: (Inr u)
      with Inr have "load_to_postgres bi env srv (PDict kvs) db =
          insert_sql srv (archived r (PDict kvs)) db"
        by (simp add: load_to_postgres_def wrap_raw_documented [OF doc])
      with insert_sql_null_query [OF doc q] show ?thesis
        by simp
    qed
  qed
  from sect reads coord absent present cols raises show ?thesis
    by blast
qed

theorem missing_section_witness:
  "section_of example_builtins null_location_payload ''location'' = Inr (PDict [])
   \<and> read_fields (PDict []) location_fields =
       Inr [(''location_name'', PNone), (''region'', PNone), (''country'', PNone)]
   \<and> coordinate example_builtins (PDict []) ''lat'' = Inr PNone
   \<and> coordinate example_builtins (PDict [(''lat'', PStr ''-6.21'')]) ''lon'' = Inr PNone
   \<and> coordinate example_builtins (PDict [(''lat'', PStr ''-6.21'')]) ''lat'' =
       Inr (PFloat (- 621 / 100))
   \<and> isl (load_to_postgres example_builtins example_env example_server no_request_payload
            provisioned_db)"
proof -
  let ?kvs = "[(''request'', PDict [(''query'', PStr ''Jakarta'')]), (''location'', PNone),
               (''current'', PDict [(''temperature'', PInt 29), (''humidity'', PInt 70)])]"
  let ?nr = "[(''location'', PDict [(''name'', PStr ''Jakarta''), (''lat'', PStr ''-6.21''),
                                    (''lon'', PStr ''106.85'')]),
              (''current'', PDict [(''temperature'', PInt 29), (''humidity'', PInt 70)])]"
  have loc: "map_of ?kvs ''location'' = None \<or> map_of ?kvs ''location'' = Some PNone"
    by simp
  have req: "map_of ?nr ''request'' = None \<or> map_of ?nr ''request'' = Some PNone"
    by simp
  note a = missing_section_reads_null
    [OF loc, of example_builtins location_fields "''lat''" "[(''lat'', PStr ''-6.21'')]"
       "PStr ''-6.21''" "[]" example_env example_server provisioned_db]
  note b = missing_section_reads_null
    [OF loc, of example_builtins location_fields "''lon''" "[(''lat'', PStr ''-6.21'')]"
       "PStr ''-6.21''" "[]" example_env example_server provisioned_db]
  note c = missing_section_reads_null
    [OF req, of example_builtins location_fields "''lat''" "[(''lat'', PStr ''-6.21'')]"
       "PStr ''-6.21''" "[]" example_env example_server provisioned_db]
  from a have s1: "section_of example_builtins null_location_payload ''location'' =
      Inr (PDict [])"
    unfolding null_location_payload_def by (rule conjunct1)
  from a have "read_fields (PDict []) location_fields =
      Inr (map (\<lambda>ck. (fst ck, PNone)) location_fields)"
    by blast
  then have s2: "read_fields (PDict []) location_fields =
       Inr [(''location_name'', PNone), (''region'', PNone), (''country'', PNone)]"
    by (simp add: location_fields_def)
  from a have s3: "coordinate example_builtins (PDict []) ''lat'' = Inr PNone"
    by blast
  have "map_of [(''lat'', PStr ''-6.21'')] ''lon'' = None"
    by simp
  with b have s4: "coordinate example_builtins (PDict [(''lat'', PStr ''-6.21'')]) ''lon'' =
      Inr PNone"
    by blast
  have "map_of [(''lat'', PStr ''-6.21'')] ''lat'' = Some (PStr ''-6.21'') \<and>
        \<not> is_none (PStr ''-6.21'' :: rat pyval)"
    by simp
  with a have "coordinate example_builtins (PDict [(''lat'', PStr ''-6.21'')]) ''lat'' =
      and_then (py_float example_builtins (PStr ''-6.21'')) (\<lambda>f. Inr (PFloat f))"
    by blast
  then have s5: "coordinate example_builtins (PDict [(''lat'', PStr ''-6.21'')]) ''lat'' =
       Inr (PFloat (- 621 / 100))"
    by (simp add: example_builtins_def signed_decimal_def unsigned_decimal_def strip_def
        is_space_def)
  from c have s6: "isl (load_to_postgres example_builtins example_env example_server
      no_request_payload provisioned_db)"
    unfolding no_request_payload_def by blast
  from s1 s2 s3 s4 s5 s6 show ?thesis
    by blast
qed

text \<open>
  The claim as stated, a null column rather than an error for every missing section,
  fails for the \<^verbatim>\<open>request\<close> section: the insert is refused.
\<close>

theorem load_without_request_raises:
  "py_contains ''current'' no_request_payload = Inr True
   \<and> load_to_postgres example_builtins example_env example_server no_request_payload
       provisioned_db =
     Inl (Exn IntegrityError ''null value violates not-null constraint'')"
proof -
  have row: "build_row example_builtins no_request_payload =
     Inr [(''query_text'', PNone), (''location_name'', PStr ''Jakarta''),
          (''region'', PNone), (''country'', PNone), (''latitude'', PFloat (- 621 / 100)),
          (''longitude'', PFloat (10685 / 100)), (''observation_time'', PNone),
          (''temperature_c'', PInt 29), (''humidity'', PInt 70), (''wind_speed'', PNone),
          (''wind_dir'', PNone), (''pressure'', PNone), (''precip'', PNone),
          (''cloudcover'', PNone), (''uv_index'', PNone), (''visibility'', PNone),
          (''is_day'', PNone), (''raw'', no_request_payload)]"
    by (simp add: build_row_def section_of_def no_request_payload_def request_fields_def
        location_fields_def current_fields_def coordinate_def example_builtins_def
        signed_decimal_def unsigned_decimal_def strip_def is_space_def)
  have "load_to_postgres example_builtins example_env example_server no_request_payload
       provisioned_db =
     Inl (Exn IntegrityError ''null value violates not-null constraint'')"
    unfolding load_to_postgres_def row
    by (simp add: example_connection wrap_raw_def)
       (simp add: insert_sql_def insert_columns_def not_null_columns_def provisioned_db_def
         table_name_def example_server_def)
  then show ?thesis
    by (simp add: no_request_payload_def)
qed

end
